theory Spec2Isabelle
  imports
    Complex_Main
    "HOL-Library.Multiset"
    "HOL-Library.Char_ord"
    "HOL-Library.Option_ord"
    "HOL-Library.List_Lexorder"
begin

section \<open>The soil-moisture server (soil-moisture-server/server.js)\<close>

text \<open>
  The server keeps two pieces of process state (\<open>sensorData\<close>, \<open>logs\<close>), three SQLite
  tables (\<open>weekly_reports\<close>, \<open>phase_logs\<close>, \<open>daily_water_usage\<close>) and the directory
  \<open>public/images\<close>. Every route handler is modelled as a function from the request and
  the state to an outcome and the state afterwards.

  Conventions of the model:
  \<^item> \<open>req.query\<close> and \<open>req.body\<close> are JavaScript objects, modelled as maps from the key to
    its string value; a key that is absent (\<open>undefined\<close>) is \<open>None\<close>. Values that are not
    strings (numbers, nested objects in a JSON body) are outside the model.
  \<^item> a nullable TEXT column and a JavaScript value that may be \<open>null\<close> are \<open>string option\<close>.
  \<^item> the \<open>id\<close> route parameter is the integer SQLite compares with the \<open>id\<close> column; a
    path segment that is not a number matches no row, like an integer not in the table.
  \<^item> every call of the storage layer takes a \<open>fault\<close>: \<open>None\<close> when SQLite executes the
    statement, \<open>Some msg\<close> when it calls back with an error whose message is \<open>msg\<close>.
  \<^item> the clock (\<open>new Date().toISOString()\<close>), SQLite's \<open>DATE('now', 'localtime')\<close>,
    \<open>Date.parse\<close> (\<open>dp\<close>) and SQLite's reading of a text as a number (\<open>num\<close>) are
    inputs of the handlers that use them.
\<close>

subsection \<open>JavaScript values\<close>

type_synonym params = "string \<rightharpoonup> string"

type_synonym fault = "string option"

text \<open>\<open>!v\<close> is false exactly for a string that is present and not empty.\<close>

definition truthy :: "string option \<Rightarrow> bool" where
  "truthy v = (case v of None \<Rightarrow> False | Some s \<Rightarrow> s \<noteq> [])"

text \<open>\<open>a || b\<close>: the left operand when it is truthy, the right one otherwise.\<close>

definition js_or :: "string option \<Rightarrow> string option \<Rightarrow> string option" where
  "js_or a b = (if truthy a then a else b)"

subsection \<open>State\<close>

record sensor_data =
  averageMoisture :: "string option"
  relayStatus :: "string option"
  sensor1 :: "string option"
  sensor2 :: "string option"
  sensor3 :: "string option"
  sensor4 :: "string option"
  sensor5 :: "string option"
  sensor6 :: "string option"
  sensor7 :: "string option"
  sensor8 :: "string option"
  sensor9 :: "string option"

record log_entry =
  time :: string
  log_moisture :: "string option"
  log_relayStatus :: "string option"
  lastSensor :: "string option"

text \<open>
  \<open>weekly_reports (id INTEGER PRIMARY KEY AUTOINCREMENT, title TEXT NOT NULL,
  report_date DATE NOT NULL, image TEXT, description TEXT)\<close>. The declared type DATE
  gives \<open>report_date\<close> NUMERIC affinity: the column holds a text or, for a text that
  looks like a number, that number.
\<close>

datatype sql_value = SqlText string | SqlNumber rat

record report_row =
  report_id :: int
  title :: string
  report_date :: sql_value
  image_ref :: "string option"
  description :: "string option"

text \<open>
  \<open>phase_logs (id INTEGER PRIMARY KEY AUTOINCREMENT, phase TEXT NOT NULL,
  start_date TEXT NOT NULL)\<close>
\<close>

record phase_row =
  phase_id :: int
  phase :: string
  start_date :: string

text \<open>
  \<open>daily_water_usage (id INTEGER PRIMARY KEY AUTOINCREMENT, date TEXT NOT NULL,
  water_usage REAL NOT NULL)\<close>; the REAL is modelled as a rational.
\<close>

record water_row =
  water_id :: int
  usage_date :: string
  water_usage :: rat

text \<open>
  Each table is the list of its rows in insertion order together with the counter SQLite
  keeps for an AUTOINCREMENT key (\<open>sqlite_sequence\<close>). \<open>images\<close> is the set of file names
  in \<open>public/images\<close>, \<open>console_error\<close> the lines written by \<open>console.error\<close>.
\<close>

record server =
  sensorData :: sensor_data
  logs :: "log_entry list"
  weekly_reports :: "report_row list"
  weekly_reports_seq :: int
  phase_logs :: "phase_row list"
  phase_logs_seq :: int
  daily_water_usage :: "water_row list"
  daily_water_usage_seq :: int
  images :: "string set"
  console_error :: "string list"

subsection \<open>Responses\<close>

datatype body =
    Text string
  | Error string
  | Message string
  | SensorJson sensor_data
  | LogsJson "log_entry list"
  | ReportsJson "report_row list"
  | ReportJson report_row
  | PhaseSetJson int "string option" "string option"
  | PhaseJson string string
  | PhaseLogsJson "(string \<times> string) list"
  | WaterUsageJson rat

text \<open>
  \<open>Text s\<close> is \<open>res.send(s)\<close>, \<open>Error s\<close> is \<open>res.json({ error: s })\<close>, \<open>Message s\<close> is
  \<open>res.json({ message: s })\<close>, \<open>PhaseSetJson i p d\<close> is
  \<open>res.json({ id: i, phase: p, startDate: d })\<close>, \<open>PhaseJson p d\<close> is
  \<open>res.json({ phase: p, startDate: d })\<close>, \<open>WaterUsageJson u\<close> is
  \<open>res.json({ waterUsage: u })\<close>; the others are the JSON of the value they carry.
\<close>

record response =
  status :: nat
  body :: body

text \<open>
  A handler either sends a response or throws inside a callback of the storage layer,
  where nothing catches the exception: the process ends with an uncaught exception and
  the request gets no response.
\<close>

datatype outcome = Responded response | Uncaught string

definition ok :: "body \<Rightarrow> outcome" where
  "ok b = Responded \<lparr>status = 200, body = b\<rparr>"

definition fail :: "nat \<Rightarrow> body \<Rightarrow> outcome" where
  "fail code b = Responded \<lparr>status = code, body = b\<rparr>"

subsection \<open>The storage layer\<close>

text \<open>
  AUTOINCREMENT: the new key is one more than the largest key the table has ever held
  (the larger of the counter and the keys present); when that is the largest 64-bit
  integer the insertion fails with SQLITE_FULL.
\<close>

definition largest_rowid :: "int \<Rightarrow> int list \<Rightarrow> int" where
  "largest_rowid seq ids = fold max ids seq"

definition max_rowid :: int where
  "max_rowid = 9223372036854775807"

definition next_rowid :: "int \<Rightarrow> int list \<Rightarrow> string + int" where
  "next_rowid seq ids =
     (if largest_rowid seq ids = max_rowid then Inl ''SQLITE_FULL: database or disk is full''
      else Inr (largest_rowid seq ids + 1))"

text \<open>
  \<open>ORDER BY k DESC\<close>: the rows by descending key. SQL leaves the order of rows with equal
  keys open; the model keeps them in table order.
\<close>

fun insert_desc :: "('a \<Rightarrow> 'k::linorder) \<Rightarrow> 'a \<Rightarrow> 'a list \<Rightarrow> 'a list" where
  "insert_desc k x [] = [x]"
| "insert_desc k x (y # ys) = (if k y < k x then x # y # ys else y # insert_desc k x ys)"

definition order_by_desc :: "('a \<Rightarrow> 'k::linorder) \<Rightarrow> 'a list \<Rightarrow> 'a list" where
  "order_by_desc k rows = fold (insert_desc k) rows []"

text \<open>\<open>db.get\<close> hands the callback the first row of the result, \<open>undefined\<close> when there is none.\<close>

definition first_row :: "'a list \<Rightarrow> 'a option" where
  "first_row rows = (case rows of [] \<Rightarrow> None | r # _ \<Rightarrow> Some r)"

text \<open>
  A bound parameter that is \<open>undefined\<close> or \<open>null\<close> reaches SQLite as NULL, which a
  NOT NULL column refuses.
\<close>

definition not_null :: "string \<Rightarrow> string option \<Rightarrow> string + string" where
  "not_null col v =
     (case v of
        None \<Rightarrow> Inl (''SQLITE_CONSTRAINT: NOT NULL constraint failed: '' @ col)
      | Some x \<Rightarrow> Inr x)"

text \<open>
  NUMERIC affinity: a text that is a well-formed integer or real literal is stored as
  that number, any other text as it is. \<open>num\<close> is SQLite's reading of a text as a number,
  \<open>None\<close> for a text that is not a well-formed literal.
\<close>

definition numeric_affinity :: "(string \<Rightarrow> rat option) \<Rightarrow> string \<Rightarrow> sql_value" where
  "numeric_affinity num x = (case num x of None \<Rightarrow> SqlText x | Some n \<Rightarrow> SqlNumber n)"

text \<open>\<open>INSERT INTO weekly_reports (title, report_date, image, description) VALUES (?, ?, ?, ?)\<close>\<close>

definition insert_report ::
  "(string \<Rightarrow> rat option) \<Rightarrow> fault \<Rightarrow> string option \<Rightarrow> string option \<Rightarrow> string option \<Rightarrow> string option
     \<Rightarrow> server \<Rightarrow> string + server" where
  "insert_report num io t d img descr s =
     (case io of
        Some msg \<Rightarrow> Inl msg
      | None \<Rightarrow>
         (case not_null ''weekly_reports.title'' t of
            Inl msg \<Rightarrow> Inl msg
          | Inr t' \<Rightarrow>
             (case not_null ''weekly_reports.report_date'' d of
                Inl msg \<Rightarrow> Inl msg
              | Inr d' \<Rightarrow>
                 (case next_rowid (weekly_reports_seq s) (map report_id (weekly_reports s)) of
                    Inl msg \<Rightarrow> Inl msg
                  | Inr i \<Rightarrow>
                      Inr (s\<lparr>weekly_reports := weekly_reports s @
                               [\<lparr>report_id = i, title = t',
                                 report_date = numeric_affinity num d',
                                 image_ref = img, description = descr\<rparr>],
                             weekly_reports_seq := i\<rparr>)))))"

text \<open>
  \<open>this.lastID\<close> is a JavaScript number: the 64-bit key converted to a double, which is
  the key itself up to \<open>2 ^ 53\<close> in absolute value and beyond that the nearest integer
  with 53 significant bits, a tie going to the even one.
\<close>

fun bit_length :: "nat \<Rightarrow> nat" where
  "bit_length n = (if n = 0 then 0 else Suc (bit_length (n div 2)))"

declare bit_length.simps [simp del]

definition round_to_53_bits :: "nat \<Rightarrow> nat" where
  "round_to_53_bits n =
     (let k = bit_length n - 53;
          q = n div 2 ^ k;
          r = n mod 2 ^ k
      in if 2 ^ k < 2 * r \<or> (2 * r = 2 ^ k \<and> odd q) then (q + 1) * 2 ^ k else q * 2 ^ k)"

definition js_number :: "int \<Rightarrow> int" where
  "js_number n =
     (if \<bar>n\<bar> \<le> 2 ^ 53 then n
      else if 0 \<le> n then int (round_to_53_bits (nat n))
      else - int (round_to_53_bits (nat (- n))))"

text \<open>
  \<open>INSERT INTO phase_logs (phase, start_date) VALUES (?, ?)\<close>; the key of the new row
  is what \<open>this.lastID\<close> is made of.
\<close>

definition insert_phase ::
  "fault \<Rightarrow> string option \<Rightarrow> string option \<Rightarrow> server \<Rightarrow> string + (int \<times> server)" where
  "insert_phase io p d s =
     (case io of
        Some msg \<Rightarrow> Inl msg
      | None \<Rightarrow>
         (case not_null ''phase_logs.phase'' p of
            Inl msg \<Rightarrow> Inl msg
          | Inr p' \<Rightarrow>
             (case not_null ''phase_logs.start_date'' d of
                Inl msg \<Rightarrow> Inl msg
              | Inr d' \<Rightarrow>
                 (case next_rowid (phase_logs_seq s) (map phase_id (phase_logs s)) of
                    Inl msg \<Rightarrow> Inl msg
                  | Inr i \<Rightarrow>
                      Inr (i, s\<lparr>phase_logs := phase_logs s @
                                  [\<lparr>phase_id = i, phase = p', start_date = d'\<rparr>],
                                phase_logs_seq := i\<rparr>)))))"

text \<open>\<open>INSERT INTO daily_water_usage (date, water_usage) VALUES (?, ?)\<close>\<close>

definition insert_usage :: "fault \<Rightarrow> string \<Rightarrow> rat \<Rightarrow> server \<Rightarrow> string + server" where
  "insert_usage io d u s =
     (case io of
        Some msg \<Rightarrow> Inl msg
      | None \<Rightarrow>
         (case next_rowid (daily_water_usage_seq s) (map water_id (daily_water_usage s)) of
            Inl msg \<Rightarrow> Inl msg
          | Inr i \<Rightarrow>
              Inr (s\<lparr>daily_water_usage := daily_water_usage s @
                       [\<lparr>water_id = i, usage_date = d, water_usage = u\<rparr>],
                     daily_water_usage_seq := i\<rparr>)))"

text \<open>\<open>SELECT ... FROM weekly_reports WHERE id = ?\<close>, read with \<open>db.get\<close>.\<close>

definition select_report :: "int \<Rightarrow> server \<Rightarrow> report_row option" where
  "select_report i s = first_row (filter (\<lambda>r. report_id r = i) (weekly_reports s))"

text \<open>
  \<open>UPDATE weekly_reports SET title = ?, report_date = ?, image = ?, description = ?
  WHERE id = ?\<close>: every row with that key is rewritten; a NULL for a NOT NULL column is
  refused when there is a row to rewrite.
\<close>

definition update_row ::
  "int \<Rightarrow> string \<Rightarrow> sql_value \<Rightarrow> string option \<Rightarrow> string option \<Rightarrow> report_row \<Rightarrow> report_row" where
  "update_row i t d img descr r =
     (if report_id r = i
      then r\<lparr>title := t, report_date := d, image_ref := img, description := descr\<rparr>
      else r)"

definition update_report_stmt ::
  "(string \<Rightarrow> rat option) \<Rightarrow> fault \<Rightarrow> int \<Rightarrow> string option \<Rightarrow> string option \<Rightarrow> string option \<Rightarrow> string option
     \<Rightarrow> server \<Rightarrow> string + server" where
  "update_report_stmt num io i t d img descr s =
     (case io of
        Some msg \<Rightarrow> Inl msg
      | None \<Rightarrow>
         (if i \<notin> set (map report_id (weekly_reports s)) then Inr s
          else
            (case not_null ''weekly_reports.title'' t of
               Inl msg \<Rightarrow> Inl msg
             | Inr t' \<Rightarrow>
                (case not_null ''weekly_reports.report_date'' d of
                   Inl msg \<Rightarrow> Inl msg
                 | Inr d' \<Rightarrow>
                     Inr (s\<lparr>weekly_reports :=
                              map (update_row i t' (numeric_affinity num d') img descr)
                                (weekly_reports s)\<rparr>)))))"

text \<open>\<open>DELETE FROM weekly_reports WHERE id = ?\<close>\<close>

definition delete_rows :: "int \<Rightarrow> report_row list \<Rightarrow> report_row list" where
  "delete_rows i rows = filter (\<lambda>r. report_id r \<noteq> i) rows"

text \<open>
  \<open>fs.unlink\<close> of a file of \<open>public/images\<close>: it fails when the file is not there or when
  the operating system refuses (\<open>Some msg\<close>); the callback of the delete handler writes
  the failure to the console and does nothing else.
\<close>

definition unlink :: "fault \<Rightarrow> string \<Rightarrow> server \<Rightarrow> server" where
  "unlink os f s =
     (if f \<in> images s \<and> os = None then s\<lparr>images := images s - {f}\<rparr>
      else s\<lparr>console_error := console_error s @ [''Failed to delete image:'']\<rparr>)"

subsection \<open>Start-up\<close>

text \<open>
  The process state at the start of the process; the tables and the image directory are
  what the previous run left (empty at the first boot).
\<close>

definition initial_sensorData :: sensor_data where
  "initial_sensorData =
     \<lparr>averageMoisture = None, relayStatus = None, sensor1 = None, sensor2 = None,
      sensor3 = None, sensor4 = None, sensor5 = None, sensor6 = None, sensor7 = None,
      sensor8 = None, sensor9 = None\<rparr>"

definition first_boot :: server where
  "first_boot =
     \<lparr>sensorData = initial_sensorData, logs = [],
      weekly_reports = [], weekly_reports_seq = 0,
      phase_logs = [], phase_logs_seq = 0,
      daily_water_usage = [], daily_water_usage_seq = 0,
      images = {}, console_error = []\<rparr>"

text \<open>
  The seeding of \<open>phase_logs\<close> (the tables themselves exist in the model). The callback of
  the count reads \<open>row.count\<close> without looking at \<open>err\<close>, and the insertion has no callback,
  so an error of either statement ends in an uncaught exception (\<open>Inl\<close>). \<open>now\<close> is
  \<open>new Date().toISOString()\<close>.
\<close>

definition seed_phase_logs :: "fault \<Rightarrow> fault \<Rightarrow> string \<Rightarrow> server \<Rightarrow> string + server" where
  "seed_phase_logs io_count io_insert now s =
     (case io_count of
        Some msg \<Rightarrow> Inl ''TypeError: Cannot read properties of undefined (reading count)''
      | None \<Rightarrow>
         (if length (phase_logs s) = 0
          then (case insert_phase io_insert (Some ''vegetative'') (Some now) s of
                  Inl msg \<Rightarrow> Inl msg
                | Inr (i, s') \<Rightarrow> Inr s')
          else Inr s))"

definition insertWaterUsage :: "fault \<Rightarrow> string \<Rightarrow> rat \<Rightarrow> server \<Rightarrow> server" where
  "insertWaterUsage io d u s =
     (case insert_usage io d u s of
        Inl msg \<Rightarrow> s\<lparr>console_error := console_error s @ [msg]\<rparr>
      | Inr s' \<Rightarrow> s')"

subsection \<open>Sensor state and event log\<close>

text \<open>\<open>app.get('/update')\<close>\<close>

definition get_update :: "params \<Rightarrow> server \<Rightarrow> outcome \<times> server" where
  "get_update q s =
     (if q ''moisture'' \<noteq> None \<and> q ''status'' \<noteq> None
      then (ok (Text ''Data received''),
            s\<lparr>sensorData :=
                \<lparr>averageMoisture = q ''moisture'',
                 relayStatus = q ''status'',
                 sensor1 = js_or (q ''sensor1'') (Some ''N/A''),
                 sensor2 = js_or (q ''sensor2'') (Some ''N/A''),
                 sensor3 = js_or (q ''sensor3'') (Some ''N/A''),
                 sensor4 = js_or (q ''sensor4'') (Some ''N/A''),
                 sensor5 = js_or (q ''sensor5'') (Some ''N/A''),
                 sensor6 = js_or (q ''sensor6'') (Some ''N/A''),
                 sensor7 = js_or (q ''sensor7'') (Some ''N/A''),
                 sensor8 = js_or (q ''sensor8'') (Some ''N/A''),
                 sensor9 = js_or (q ''sensor9'') (Some ''N/A'')\<rparr>\<rparr>)
      else (fail 400 (Text ''Invalid data''), s))"

text \<open>\<open>app.post('/log')\<close>; \<open>now\<close> is the server's clock.\<close>

definition post_log :: "string \<Rightarrow> params \<Rightarrow> server \<Rightarrow> outcome \<times> server" where
  "post_log now b s =
     (ok (Text ''Log received''),
      s\<lparr>logs := logs s @
           [\<lparr>time = now, log_moisture = b ''moisture'',
             log_relayStatus = b ''relayStatus'', lastSensor = b ''lastSensor''\<rparr>]\<rparr>)"

text \<open>\<open>app.get('/data')\<close> and \<open>app.get('/today-log')\<close>\<close>

definition get_data :: "server \<Rightarrow> outcome \<times> server" where
  "get_data s = (ok (SensorJson (sensorData s)), s)"

definition get_today_log :: "server \<Rightarrow> outcome \<times> server" where
  "get_today_log s = (ok (LogsJson (logs s)), s)"

subsection \<open>Report archive\<close>

text \<open>
  \<open>upload.single('reportImage')\<close> runs before the handler: a file of the request is
  written to \<open>public/images\<close> under its generated name, which the handler reads as
  \<open>req.file.filename\<close>.
\<close>

definition upload_single :: "string option \<Rightarrow> server \<Rightarrow> server" where
  "upload_single file s =
     (case file of None \<Rightarrow> s | Some f \<Rightarrow> s\<lparr>images := insert f (images s)\<rparr>)"

text \<open>\<open>app.post('/upload-report')\<close>\<close>

definition post_upload_report ::
  "(string \<Rightarrow> rat option) \<Rightarrow> fault \<Rightarrow> params \<Rightarrow> string option \<Rightarrow> server \<Rightarrow> outcome \<times> server" where
  "post_upload_report num io b file s0 =
     (let s = upload_single file s0;
          img = file
      in case insert_report num io (b ''title'') (b ''reportDate'') img (b ''description'') s of
           Inl msg \<Rightarrow> (fail 500 (Error msg), s)
         | Inr s' \<Rightarrow> (ok (Message ''Report saved successfully''), s'))"

text \<open>\<open>app.get('/weekly-reports')\<close>\<close>

definition get_weekly_reports :: "fault \<Rightarrow> server \<Rightarrow> outcome \<times> server" where
  "get_weekly_reports io s =
     (case io of
        Some msg \<Rightarrow> (fail 500 (Error msg), s)
      | None \<Rightarrow> (ok (ReportsJson (weekly_reports s)), s))"

text \<open>
  \<open>image || row.image\<close> in the callback of the update handler: \<open>row.image\<close> is evaluated
  only when \<open>image\<close> (here \<open>img\<close>: the file name of the request's file, \<open>null\<close>
  without one) is falsy, and throws when \<open>row\<close> is \<open>undefined\<close>.
\<close>

definition image_or_row :: "string option \<Rightarrow> report_row option \<Rightarrow> string + string option" where
  "image_or_row img row =
     (if truthy img then Inr img
      else (case row of
              None \<Rightarrow> Inl ''TypeError: Cannot read properties of undefined (reading image)''
            | Some r \<Rightarrow> Inr (image_ref r)))"

text \<open>\<open>app.put('/update-report/:id')\<close>\<close>

definition put_update_report ::
  "(string \<Rightarrow> rat option) \<Rightarrow> fault \<Rightarrow> fault \<Rightarrow> int \<Rightarrow> params \<Rightarrow> string option \<Rightarrow> server \<Rightarrow> outcome \<times> server" where
  "put_update_report num io_get io_run i b file s0 =
     (let s = upload_single file s0;
          img = file
      in if \<not> truthy (b ''title'') \<or> \<not> truthy (b ''reportDate'') \<or> \<not> truthy (b ''description'')
         then (fail 400 (Error ''Title, date, and description are required.''), s)
         else
           (case io_get of
              Some msg \<Rightarrow> (fail 500 (Error ''Failed to retrieve the current report.''), s)
            | None \<Rightarrow>
               (case image_or_row img (select_report i s) of
                  Inl exn \<Rightarrow> (Uncaught exn, s)
                | Inr img' \<Rightarrow>
                   (case update_report_stmt num io_run i (b ''title'') (b ''reportDate'') img'
                           (b ''description'') s of
                      Inl msg \<Rightarrow>
                        (fail 500 (Error ''Failed to update the report in the database.''), s)
                    | Inr s' \<Rightarrow> (ok (Message ''Report updated successfully''), s')))))"

text \<open>
  \<open>app.delete('/delete-report/:id')\<close>: \<open>if (row && row.image)\<close> guards the removal of the
  file, whose outcome (\<open>os\<close>) the handler does not wait for.
\<close>

definition remove_image :: "fault \<Rightarrow> report_row option \<Rightarrow> server \<Rightarrow> server" where
  "remove_image os row s =
     (case row of
        None \<Rightarrow> s
      | Some r \<Rightarrow>
         (case image_ref r of
            None \<Rightarrow> s
          | Some f \<Rightarrow> (if f \<noteq> [] then unlink os f s else s)))"

definition delete_delete_report ::
  "fault \<Rightarrow> fault \<Rightarrow> fault \<Rightarrow> int \<Rightarrow> server \<Rightarrow> outcome \<times> server" where
  "delete_delete_report io_get os io_run i s =
     (case io_get of
        Some msg \<Rightarrow> (fail 500 (Error msg), s)
      | None \<Rightarrow>
         (let s1 = remove_image os (select_report i s) s
          in case io_run of
               Some msg \<Rightarrow> (fail 500 (Error msg), s1)
             | None \<Rightarrow>
                 (ok (Message ''Report deleted successfully''),
                  s1\<lparr>weekly_reports := delete_rows i (weekly_reports s1)\<rparr>)))"

text \<open>\<open>app.get('/report/:id')\<close>\<close>

definition get_report :: "fault \<Rightarrow> int \<Rightarrow> server \<Rightarrow> outcome \<times> server" where
  "get_report io i s =
     (case io of
        Some msg \<Rightarrow> (fail 500 (Error ''Failed to retrieve the report.''), s)
      | None \<Rightarrow>
         (case select_report i s of
            None \<Rightarrow> (fail 404 (Error ''Report not found.''), s)
          | Some row \<Rightarrow> (ok (ReportJson row), s)))"

subsection \<open>Phase timeline\<close>

text \<open>
  \<open>app.post('/set-phase')\<close>. \<open>date_parse\<close> is \<open>Date.parse\<close>: the milliseconds of the
  date a string denotes, \<open>None\<close> for \<open>NaN\<close>.
\<close>

definition post_set_phase ::
  "(string \<Rightarrow> int option) \<Rightarrow> fault \<Rightarrow> params \<Rightarrow> server \<Rightarrow> outcome \<times> server" where
  "post_set_phase date_parse io b s =
     (if \<not> truthy (b ''phase'') \<or> \<not> truthy (b ''startDate'')
      then (fail 400 (Error ''Phase and startDate are required''), s)
      else
        (case Option.bind (b ''startDate'') date_parse of
           None \<Rightarrow> (fail 400 (Error ''Invalid startDate format''), s)
         | Some isValidDate \<Rightarrow>
            (case insert_phase io (b ''phase'') (b ''startDate'') s of
               Inl msg \<Rightarrow>
                 (fail 500 (Error ''Failed to set phase''),
                  s\<lparr>console_error := console_error s @ [''Error inserting phase log:'']\<rparr>)
             | Inr (lastID, s') \<Rightarrow>
                 (ok (PhaseSetJson (js_number lastID) (b ''phase'') (b ''startDate'')), s'))))"

text \<open>
  \<open>app.get('/current-phase')\<close>:
  \<open>SELECT phase, start_date FROM phase_logs ORDER BY id DESC LIMIT 1\<close>
\<close>

definition get_current_phase :: "fault \<Rightarrow> server \<Rightarrow> outcome \<times> server" where
  "get_current_phase io s =
     (case io of
        Some msg \<Rightarrow>
          (fail 500 (Error ''Failed to fetch current phase''),
           s\<lparr>console_error := console_error s @ [''Error fetching current phase:'']\<rparr>)
      | None \<Rightarrow>
         (case first_row (order_by_desc phase_id (phase_logs s)) of
            None \<Rightarrow> (fail 404 (Error ''No phase data found''), s)
          | Some row \<Rightarrow> (ok (PhaseJson (phase row) (start_date row)), s)))"

text \<open>
  \<open>app.get('/phase-logs')\<close>:
  \<open>SELECT phase, start_date FROM phase_logs ORDER BY start_date DESC\<close>. The column is
  TEXT, so the keys are compared as strings, byte by byte.
\<close>

definition get_phase_logs :: "fault \<Rightarrow> server \<Rightarrow> outcome \<times> server" where
  "get_phase_logs io s =
     (case io of
        Some msg \<Rightarrow>
          (fail 500 (Error ''Failed to fetch phase logs''),
           s\<lparr>console_error := console_error s @ [''Error fetching phase logs:'']\<rparr>)
      | None \<Rightarrow>
          (ok (PhaseLogsJson (map (\<lambda>r. (phase r, start_date r))
                                (order_by_desc start_date (phase_logs s)))), s))"

subsection \<open>Daily water usage\<close>

text \<open>
  \<open>app.get('/water-usage-today')\<close>:
  \<open>SELECT water_usage FROM daily_water_usage WHERE date = DATE('now', 'localtime')\<close>,
  with \<open>today\<close> the value of \<open>DATE('now', 'localtime')\<close>.
\<close>

definition get_water_usage_today :: "fault \<Rightarrow> string \<Rightarrow> server \<Rightarrow> outcome \<times> server" where
  "get_water_usage_today io today s =
     (case io of
        Some msg \<Rightarrow>
          (fail 500 (Error ''Internal Server Error''),
           s\<lparr>console_error := console_error s @ [msg]\<rparr>)
      | None \<Rightarrow>
         (case first_row (filter (\<lambda>r. usage_date r = today) (daily_water_usage s)) of
            Some row \<Rightarrow> (ok (WaterUsageJson (water_usage row)), s)
          | None \<Rightarrow> (ok (WaterUsageJson 0), s)))"

subsection \<open>The server as a whole\<close>

text \<open>
  A request names its route and carries its input, together with what the environment
  does while it is handled (the faults of the storage calls, the clock).
\<close>

datatype request =
    GetUpdate params
  | PostLog string params
  | GetData
  | GetTodayLog
  | PostUploadReport fault params "string option"
  | GetWeeklyReports fault
  | PutUpdateReport fault fault int params "string option"
  | DeleteReport fault fault fault int
  | GetReport fault int
  | PostSetPhase fault params
  | GetCurrentPhase fault
  | GetPhaseLogs fault
  | GetWaterUsageToday fault string

fun handle ::
  "(string \<Rightarrow> int option) \<Rightarrow> (string \<Rightarrow> rat option) \<Rightarrow> request \<Rightarrow> server \<Rightarrow> outcome \<times> server" where
  "handle dp num (GetUpdate q) s = get_update q s"
| "handle dp num (PostLog now b) s = post_log now b s"
| "handle dp num GetData s = get_data s"
| "handle dp num GetTodayLog s = get_today_log s"
| "handle dp num (PostUploadReport io b file) s = post_upload_report num io b file s"
| "handle dp num (GetWeeklyReports io) s = get_weekly_reports io s"
| "handle dp num (PutUpdateReport io_get io_run i b file) s = put_update_report num io_get io_run i b file s"
| "handle dp num (DeleteReport io_get os io_run i) s = delete_delete_report io_get os io_run i s"
| "handle dp num (GetReport io i) s = get_report io i s"
| "handle dp num (PostSetPhase io b) s = post_set_phase dp io b s"
| "handle dp num (GetCurrentPhase io) s = get_current_phase io s"
| "handle dp num (GetPhaseLogs io) s = get_phase_logs io s"
| "handle dp num (GetWaterUsageToday io today) s = get_water_usage_today io today s"

text \<open>
  The server handles requests one after the other until a handler throws; the state it
  leaves then is the state at the exception.
\<close>

fun run ::
  "(string \<Rightarrow> int option) \<Rightarrow> (string \<Rightarrow> rat option) \<Rightarrow> request list \<Rightarrow> server \<Rightarrow> server" where
  "run dp num [] s = s"
| "run dp num (r # rs) s =
     (case handle dp num r s of
        (Responded res, s') \<Rightarrow> run dp num rs s'
      | (Uncaught exn, s') \<Rightarrow> s')"

text \<open>
  A sequence of \<open>/set-phase\<close> requests, each with the fault of its insertion: the state
  after all of them, and whether every one of them was answered with status 200.
\<close>

fun set_phases :: "(string \<Rightarrow> int option) \<Rightarrow> (fault \<times> params) list \<Rightarrow> server \<Rightarrow> server" where
  "set_phases dp [] s = s"
| "set_phases dp (c # cs) s = set_phases dp cs (snd (post_set_phase dp (fst c) (snd c) s))"

fun accepted :: "outcome \<Rightarrow> bool" where
  "accepted (Responded res) = (status res = 200)"
| "accepted (Uncaught exn) = False"

fun all_accepted :: "(string \<Rightarrow> int option) \<Rightarrow> (fault \<times> params) list \<Rightarrow> server \<Rightarrow> bool" where
  "all_accepted dp [] s = True"
| "all_accepted dp (c # cs) s =
     (accepted (fst (post_set_phase dp (fst c) (snd c) s)) \<and>
      all_accepted dp cs (snd (post_set_phase dp (fst c) (snd c) s)))"

subsection \<open>Reference definitions for the statements\<close>

text \<open>
  What the specification says a reading of an optional sensor looks like: the value
  submitted, or the sentinel \<open>N/A\<close> when the sensor was omitted or empty.
\<close>

definition rendered :: "string option \<Rightarrow> string option" where
  "rendered v =
     (case v of None \<Rightarrow> Some ''N/A'' | Some x \<Rightarrow> (if x = [] then Some ''N/A'' else Some x))"

text \<open>
  The identifier a response body carries, if it carries one: the \<open>id\<close> key of the answer
  of \<open>/set-phase\<close> and of a report row.
\<close>

fun body_id :: "body \<Rightarrow> int option" where
  "body_id (PhaseSetJson i p d) = Some i"
| "body_id (ReportJson r) = Some (report_id r)"
| "body_id b = None"

text \<open>
  A \<open>Date.parse\<close> for the examples: it knows four dates and answers \<open>NaN\<close> to every
  other string.
\<close>

definition iso_dates :: "string \<Rightarrow> int option" where
  "iso_dates x =
     (if x = ''2024-06-01'' then Some 1717200000000
      else if x = ''2024-05-01T08:00:00.000Z'' then Some 1714550400000
      else if x = ''2024-03-01'' then Some 1709251200000
      else if x = ''2024-01-01'' then Some 1704067200000
      else None)"

text \<open>
  The database after the seeding of a first boot at 08:00 on 1 May 2024 (universal time).
\<close>

definition seeded :: server where
  "seeded =
     first_boot\<lparr>phase_logs :=
                  [\<lparr>phase_id = 1, phase = ''vegetative'',
                    start_date = ''2024-05-01T08:00:00.000Z''\<rparr>],
                phase_logs_seq := 1\<rparr>"




text \<open>
  SQLite's reading of a text as a number, for the examples: it knows two literals and
  takes every other text for a text.
\<close>

definition few_numbers :: "string \<Rightarrow> rat option" where
  "few_numbers x = (if x = ''1e3'' then Some 1000 else if x = ''007'' then Some 7 else None)"


text \<open>
  The report of the examples: created from the fields of \<open>week1\<close> with the image
  \<open>a.png\<close> on a fresh database, it gets the identifier 1 (\<open>one_report\<close> is the state
  afterwards); \<open>week1b\<close> are the fields of an update of it, \<open>week1000\<close> those of an
  update whose date looks like a number.
\<close>

definition week1 :: params where
  "week1 = [''title'' \<mapsto> ''Week 1'', ''reportDate'' \<mapsto> ''2024-06-01'', ''description'' \<mapsto> ''ok'']"


definition week1b :: params where
  "week1b = [''title'' \<mapsto> ''Week 1b'', ''reportDate'' \<mapsto> ''2024-06-01'', ''description'' \<mapsto> ''ok'']"

definition one_report :: server where
  "one_report =
     first_boot\<lparr>weekly_reports :=
                  [\<lparr>report_id = 1, title = ''Week 1'', report_date = SqlText ''2024-06-01'',
                    image_ref = Some ''a.png'', description = Some ''ok''\<rparr>],
                weekly_reports_seq := 1, images := {''a.png''}\<rparr>"

section \<open>Properties\<close>

subsection \<open>Row identifiers and ordering\<close>

lemma largest_rowid_ge_seq: "seq \<le> largest_rowid seq ids"
  unfolding largest_rowid_def by (induction ids arbitrary: seq) (auto intro: order_trans [OF max.cobounded2])

lemma largest_rowid_ge_id: "x \<in> set ids \<Longrightarrow> x \<le> largest_rowid seq ids"
  unfolding largest_rowid_def
proof (induction ids arbitrary: seq)
  case Nil
  then show ?case by simp
next
  case (Cons a ids)
  show ?case
  proof (cases "x = a")
    case True
    have "max a seq \<le> fold max ids (max a seq)"
      using largest_rowid_ge_seq [of "max a seq" ids] by (simp add: largest_rowid_def)
    with True show ?thesis by simp
  next
    case False
    with Cons show ?thesis by simp
  qed
qed

lemma next_rowid_fresh:
  "next_rowid seq ids = Inr i \<Longrightarrow> x \<in> set ids \<Longrightarrow> x < i"
  using largest_rowid_ge_id [of x ids seq]
  by (auto simp: next_rowid_def split: if_splits)

lemma largest_rowid_less:
  "seq < m \<Longrightarrow> \<forall>x \<in> set ids. x < m \<Longrightarrow> largest_rowid seq ids < m"
  unfolding largest_rowid_def by (induction ids arbitrary: seq) auto

lemma next_rowid_exact:
  assumes "next_rowid seq ids = Inr i" and "0 \<le> seq" and "seq < 2 ^ 53"
  shows "\<forall>x \<in> set ids. x < 2 ^ 53 \<Longrightarrow> js_number i = i"
proof -
  assume "\<forall>x \<in> set ids. x < 2 ^ 53"
  with assms(3) have "largest_rowid seq ids < 2 ^ 53" by (rule largest_rowid_less)
  moreover from assms(2) have "0 \<le> largest_rowid seq ids"
    using largest_rowid_ge_seq [of seq ids] by simp
  moreover from assms(1) have "i = largest_rowid seq ids + 1"
    by (simp add: next_rowid_def split: if_splits)
  ultimately show ?thesis by (simp add: js_number_def)
qed

lemma bit_length_54: "bit_length 9007199254740993 = 54"
  by (simp add: bit_length.simps)

lemma js_number_rounds: "js_number 9007199254740993 = 9007199254740992"
  by (simp add: js_number_def round_to_53_bits_def bit_length_54)


lemma mset_insert_desc: "mset (insert_desc k x ys) = add_mset x (mset ys)"
  by (induction ys) auto

lemma order_by_desc_snoc: "order_by_desc k (rows @ [r]) = insert_desc k r (order_by_desc k rows)"
  by (simp add: order_by_desc_def)

lemma mset_order_by_desc: "mset (order_by_desc k rows) = mset rows"
  by (induction rows rule: rev_induct) (simp_all add: order_by_desc_def mset_insert_desc)

lemma set_order_by_desc: "set (order_by_desc k rows) = set rows"
  using mset_order_by_desc [of k rows] by (metis set_mset_mset)



lemma insert_desc_greatest:
  "\<forall>y \<in> set ys. k y < k x \<Longrightarrow> insert_desc k x ys = x # ys"
  by (cases ys) auto

lemma first_row_newest:
  "\<forall>y \<in> set rows. k y < k r \<Longrightarrow> first_row (order_by_desc k (rows @ [r])) = Some r"
  by (simp add: order_by_desc_snoc insert_desc_greatest set_order_by_desc first_row_def)

lemma first_row_None: "first_row rows = None \<longleftrightarrow> rows = []"
  by (cases rows) (simp_all add: first_row_def)

lemma order_by_desc_Nil: "order_by_desc k rows = [] \<longleftrightarrow> rows = []"
  using set_order_by_desc [of k rows] by (metis set_empty)

subsection \<open>Sensor state cache\<close>

lemma js_or_rendered: "js_or v (Some ''N/A'') = rendered v"
  by (cases v) (simp_all add: js_or_def truthy_def rendered_def)

text \<open>
  Claim C8. A sensor update without the aggregate moisture value or without the relay
  status is answered with status 400 and leaves the whole state, the cached snapshot
  included, as it was. Any other update is answered with \<open>Data received\<close>, and the
  snapshot that \<open>/data\<close> returns afterwards consists of the moisture and the status just
  submitted and, for each of the nine sensors, the value just submitted or \<open>N/A\<close> when it
  was omitted or empty: it is a function of this request alone, nothing of the previous
  snapshot is left.
\<close>

theorem sensor_update_contract:
  "(q ''moisture'' = None \<or> q ''status'' = None \<longrightarrow>
      get_update q s = (fail 400 (Text ''Invalid data''), s)) \<and>
   (q ''moisture'' \<noteq> None \<and> q ''status'' \<noteq> None \<longrightarrow>
      fst (get_update q s) = ok (Text ''Data received'') \<and>
      get_data (snd (get_update q s)) =
        (ok (SensorJson
           \<lparr>averageMoisture = q ''moisture'', relayStatus = q ''status'',
            sensor1 = rendered (q ''sensor1''), sensor2 = rendered (q ''sensor2''),
            sensor3 = rendered (q ''sensor3''), sensor4 = rendered (q ''sensor4''),
            sensor5 = rendered (q ''sensor5''), sensor6 = rendered (q ''sensor6''),
            sensor7 = rendered (q ''sensor7''), sensor8 = rendered (q ''sensor8''),
            sensor9 = rendered (q ''sensor9'')\<rparr>),
         snd (get_update q s)))"
  by (auto simp: get_update_def get_data_def js_or_rendered)

theorem sensor_update_contract_witness:
  "get_update [''status'' \<mapsto> ''ON''] first_boot = (fail 400 (Text ''Invalid data''), first_boot) \<and>
   fst (get_data (snd (get_update [''moisture'' \<mapsto> ''41'', ''status'' \<mapsto> ''ON'', ''sensor2'' \<mapsto> '''']
      (snd (get_update [''moisture'' \<mapsto> ''40'', ''status'' \<mapsto> ''OFF'', ''sensor1'' \<mapsto> ''7'',
            ''sensor2'' \<mapsto> ''8''] first_boot))))) =
     ok (SensorJson
           \<lparr>averageMoisture = Some ''41'', relayStatus = Some ''ON'',
            sensor1 = Some ''N/A'', sensor2 = Some ''N/A'', sensor3 = Some ''N/A'',
            sensor4 = Some ''N/A'', sensor5 = Some ''N/A'', sensor6 = Some ''N/A'',
            sensor7 = Some ''N/A'', sensor8 = Some ''N/A'', sensor9 = Some ''N/A''\<rparr>)"
  using sensor_update_contract [of "[''status'' \<mapsto> ''ON'']" first_boot]
    sensor_update_contract [of "[''moisture'' \<mapsto> ''41'', ''status'' \<mapsto> ''ON'', ''sensor2'' \<mapsto> '''']"
      "snd (get_update [''moisture'' \<mapsto> ''40'', ''status'' \<mapsto> ''OFF'', ''sensor1'' \<mapsto> ''7'',
            ''sensor2'' \<mapsto> ''8''] first_boot)"]
  by (simp add: rendered_def)

subsection \<open>Phase timeline\<close>

text \<open>
  Claim C6. \<open>/set-phase\<close> answers with status 400 and the reason
  \<open>Phase and startDate are required\<close> when the phase is empty or absent or the start date
  is absent or empty, and with status 400 and the reason \<open>Invalid startDate format\<close> when
  the start date does not parse as a date. In both cases the state returned is the state
  before the request, whatever the storage layer would have done (\<open>io\<close>): the insertion is
  not reached and \<open>phase_logs\<close> gets no row.
\<close>

theorem set_phase_validation:
  "(\<not> truthy (b ''phase'') \<or> \<not> truthy (b ''startDate'') \<longrightarrow>
      post_set_phase dp io b s = (fail 400 (Error ''Phase and startDate are required''), s)) \<and>
   (truthy (b ''phase'') \<and> b ''startDate'' = Some d \<and> d \<noteq> [] \<and> dp d = None \<longrightarrow>
      post_set_phase dp io b s = (fail 400 (Error ''Invalid startDate format''), s))"
  by (auto simp: post_set_phase_def truthy_def)

theorem set_phase_validation_witness:
  "post_set_phase iso_dates None [''phase'' \<mapsto> '''', ''startDate'' \<mapsto> ''2024-06-01''] first_boot =
     (fail 400 (Error ''Phase and startDate are required''), first_boot) \<and>
   post_set_phase iso_dates None [''phase'' \<mapsto> ''flowering''] first_boot =
     (fail 400 (Error ''Phase and startDate are required''), first_boot) \<and>
   post_set_phase iso_dates None [''phase'' \<mapsto> ''flowering'', ''startDate'' \<mapsto> ''not-a-date''] first_boot =
     (fail 400 (Error ''Invalid startDate format''), first_boot)"
  using set_phase_validation [where b = "[''phase'' \<mapsto> '''', ''startDate'' \<mapsto> ''2024-06-01'']"
      and dp = iso_dates and io = None and s = first_boot]
    set_phase_validation [where b = "[''phase'' \<mapsto> ''flowering'']"
      and dp = iso_dates and io = None and s = first_boot]
    set_phase_validation [where b = "[''phase'' \<mapsto> ''flowering'', ''startDate'' \<mapsto> ''not-a-date'']"
      and d = "''not-a-date''" and dp = iso_dates and io = None and s = first_boot]
  by (simp add: truthy_def iso_dates_def)

lemma set_phase_accepted_key:
  assumes "accepted (fst (post_set_phase dp io b s))"
  shows "\<exists>i p d. b ''phase'' = Some p \<and> b ''startDate'' = Some d \<and>
           next_rowid (phase_logs_seq s) (map phase_id (phase_logs s)) = Inr i \<and>
           post_set_phase dp io b s =
             (ok (PhaseSetJson (js_number i) (Some p) (Some d)),
              s\<lparr>phase_logs := phase_logs s @ [\<lparr>phase_id = i, phase = p, start_date = d\<rparr>],
                phase_logs_seq := i\<rparr>)"
proof -
  from assms obtain p d where p: "b ''phase'' = Some p" and d: "b ''startDate'' = Some d"
    by (cases "b ''phase''"; cases "b ''startDate''")
       (auto simp: post_set_phase_def truthy_def fail_def)
  from assms p d obtain i where
    i: "next_rowid (phase_logs_seq s) (map phase_id (phase_logs s)) = Inr i" and io: "io = None"
    by (cases io; cases "next_rowid (phase_logs_seq s) (map phase_id (phase_logs s))")
       (auto simp: post_set_phase_def truthy_def fail_def insert_phase_def not_null_def
             split: if_splits option.splits)
  from assms p d i io have "post_set_phase dp io b s =
      (ok (PhaseSetJson (js_number i) (Some p) (Some d)),
       s\<lparr>phase_logs := phase_logs s @ [\<lparr>phase_id = i, phase = p, start_date = d\<rparr>],
         phase_logs_seq := i\<rparr>)"
    by (auto simp: post_set_phase_def truthy_def fail_def insert_phase_def not_null_def
             split: if_splits option.splits)
  with p d i show ?thesis by blast
qed

lemma set_phase_accepted:
  assumes "accepted (fst (post_set_phase dp io b s))"
  shows "\<exists>i p d. b ''phase'' = Some p \<and> b ''startDate'' = Some d \<and>
           post_set_phase dp io b s =
             (ok (PhaseSetJson (js_number i) (Some p) (Some d)),
              s\<lparr>phase_logs := phase_logs s @ [\<lparr>phase_id = i, phase = p, start_date = d\<rparr>],
                phase_logs_seq := i\<rparr>) \<and>
           (\<forall>r \<in> set (phase_logs s). phase_id r < i)"
proof -
  from set_phase_accepted_key [OF assms] obtain i p d where
    b: "b ''phase'' = Some p" "b ''startDate'' = Some d" and
    i: "next_rowid (phase_logs_seq s) (map phase_id (phase_logs s)) = Inr i" and
    eq: "post_set_phase dp io b s =
      (ok (PhaseSetJson (js_number i) (Some p) (Some d)),
       s\<lparr>phase_logs := phase_logs s @ [\<lparr>phase_id = i, phase = p, start_date = d\<rparr>],
         phase_logs_seq := i\<rparr>)"
    by blast
  have "\<forall>r \<in> set (phase_logs s). phase_id r < i"
    using next_rowid_fresh [OF i] by simp
  with b eq show ?thesis by blast
qed

lemma current_phase_snoc:
  assumes "\<forall>r \<in> set rows. phase_id r < i"
    and "phase_logs s = rows @ [\<lparr>phase_id = i, phase = p, start_date = d\<rparr>]"
  shows "get_current_phase None s = (ok (PhaseJson p d), s)"
  using first_row_newest [of rows phase_id "\<lparr>phase_id = i, phase = p, start_date = d\<rparr>"] assms
  by (simp add: get_current_phase_def)

text \<open>
  Claim C1. After any non-empty sequence of \<open>/set-phase\<close> requests that were all accepted,
  started in any state and with any dates, \<open>/current-phase\<close> returns the phase and the
  start date of the last request of the sequence. That request's row is the last one
  inserted and carries an identifier greater than that of every other row of the table.
  Nothing is assumed about the order of the dates (\<open>dp\<close>, the date parser, is arbitrary).
\<close>

theorem current_phase_is_latest_insert:
  assumes "cs \<noteq> []" and "all_accepted dp cs s"
  shows "\<exists>i p d. snd (last cs) ''phase'' = Some p \<and> snd (last cs) ''startDate'' = Some d \<and>
           get_current_phase None (set_phases dp cs s) = (ok (PhaseJson p d), set_phases dp cs s) \<and>
           last (phase_logs (set_phases dp cs s)) = \<lparr>phase_id = i, phase = p, start_date = d\<rparr> \<and>
           (\<forall>r \<in> set (butlast (phase_logs (set_phases dp cs s))). phase_id r < i)"
  using assms
proof (induction cs arbitrary: s)
  case Nil
  then show ?case by simp
next
  case (Cons c cs)
  show ?case
  proof (cases "cs = []")
    case True
    from Cons.prems have "accepted (fst (post_set_phase dp (fst c) (snd c) s))" by simp
    from set_phase_accepted [OF this] obtain i p d where
      b: "snd c ''phase'' = Some p" "snd c ''startDate'' = Some d" and
      st: "snd (post_set_phase dp (fst c) (snd c) s) =
             s\<lparr>phase_logs := phase_logs s @ [\<lparr>phase_id = i, phase = p, start_date = d\<rparr>],
               phase_logs_seq := i\<rparr>" and
      fresh: "\<forall>r \<in> set (phase_logs s). phase_id r < i"
      by fastforce
    have "get_current_phase None (snd (post_set_phase dp (fst c) (snd c) s)) =
            (ok (PhaseJson p d), snd (post_set_phase dp (fst c) (snd c) s))"
      by (rule current_phase_snoc [OF fresh]) (simp add: st)
    with True b st fresh show ?thesis by auto
  next
    case False
    from Cons.prems have "all_accepted dp cs (snd (post_set_phase dp (fst c) (snd c) s))"
      by simp
    from Cons.IH [OF False this] False show ?thesis by simp
  qed
qed

theorem current_phase_is_latest_insert_witness:
  "get_current_phase None
     (set_phases iso_dates
        [(None, [''phase'' \<mapsto> ''flowering'', ''startDate'' \<mapsto> ''2024-06-01'']),
         (None, [''phase'' \<mapsto> ''seedling'', ''startDate'' \<mapsto> ''2024-01-01''])] first_boot) =
   (ok (PhaseJson ''seedling'' ''2024-01-01''),
    set_phases iso_dates
        [(None, [''phase'' \<mapsto> ''flowering'', ''startDate'' \<mapsto> ''2024-06-01'']),
         (None, [''phase'' \<mapsto> ''seedling'', ''startDate'' \<mapsto> ''2024-01-01''])] first_boot)"
proof -
  let ?cs = "[(None, [''phase'' \<mapsto> ''flowering'', ''startDate'' \<mapsto> ''2024-06-01'']),
              (None, [''phase'' \<mapsto> ''seedling'', ''startDate'' \<mapsto> ''2024-01-01''])]
             :: (fault \<times> params) list"
  have ne: "?cs \<noteq> []" by simp
  have acc: "all_accepted iso_dates ?cs first_boot"
    by (simp add: post_set_phase_def truthy_def iso_dates_def insert_phase_def not_null_def
          next_rowid_def largest_rowid_def max_rowid_def first_boot_def ok_def)
  from current_phase_is_latest_insert [OF ne acc] show ?thesis by auto
qed

lemma insert_phase_append:
  "insert_phase io p d s = Inr (i, s') \<Longrightarrow> \<exists>ys. phase_logs s' = phase_logs s @ ys"
  by (auto simp: insert_phase_def not_null_def split: option.splits sum.splits)

lemma unlink_phase_logs: "phase_logs (unlink os f s) = phase_logs s"
  by (simp add: unlink_def)

lemma remove_image_phase_logs: "phase_logs (remove_image os row s) = phase_logs s"
  by (simp add: remove_image_def unlink_phase_logs split: option.splits)

lemma upload_single_phase_logs: "phase_logs (upload_single file s) = phase_logs s"
  by (simp add: upload_single_def split: option.splits)

lemma post_upload_report_phase_logs:
  "phase_logs (snd (post_upload_report num io b file s)) = phase_logs s"
  by (auto simp: post_upload_report_def insert_report_def not_null_def upload_single_phase_logs
        Let_def split: option.splits sum.splits)

lemma put_update_report_phase_logs:
  "phase_logs (snd (put_update_report num io_get io_run i b file s)) = phase_logs s"
  by (auto simp: put_update_report_def update_report_stmt_def not_null_def
        upload_single_phase_logs Let_def split: option.splits sum.splits if_splits)

lemma delete_delete_report_phase_logs:
  "phase_logs (snd (delete_delete_report io_get os io_run i s)) = phase_logs s"
  by (auto simp: delete_delete_report_def remove_image_phase_logs Let_def split: option.splits)

lemma post_set_phase_append:
  "\<exists>ys. phase_logs (snd (post_set_phase dp io b s)) = phase_logs s @ ys"
proof (cases "insert_phase io (b ''phase'') (b ''startDate'') s")
  case (Inl msg)
  then show ?thesis by (simp add: post_set_phase_def split: option.splits)
next
  case (Inr res)
  obtain i s' where res: "res = (i, s')" by (cases res)
  from insert_phase_append [of io "b ''phase''" "b ''startDate''" s i s'] Inr res
  obtain ys where "phase_logs s' = phase_logs s @ ys" by auto
  with Inr res show ?thesis by (auto simp: post_set_phase_def split: option.splits)
qed

lemma handle_phase_logs_append:
  "\<exists>ys. phase_logs (snd (handle dp num r s)) = phase_logs s @ ys"
proof (cases r)
  case (PostSetPhase io b)
  then show ?thesis using post_set_phase_append [of dp io b s] by simp
qed (simp_all add: get_update_def post_log_def get_data_def get_today_log_def
       post_upload_report_phase_logs put_update_report_phase_logs
       delete_delete_report_phase_logs get_weekly_reports_def get_report_def
       get_current_phase_def get_phase_logs_def get_water_usage_today_def
       split: option.splits)

lemma run_phase_logs_append: "\<exists>ys. phase_logs (run dp num rs s) = phase_logs s @ ys"
proof (induction rs arbitrary: s)
  case Nil
  then show ?case by simp
next
  case (Cons r rs)
  obtain out s' where h: "handle dp num r s = (out, s')" by (cases "handle dp num r s")
  from handle_phase_logs_append [of dp num r s] h obtain ys where
    ys: "phase_logs s' = phase_logs s @ ys" by auto
  show ?case
  proof (cases out)
    case (Responded res)
    from Cons.IH [of s'] obtain zs where "phase_logs (run dp num rs s') = phase_logs s' @ zs" ..
    with h Responded ys show ?thesis by simp
  next
    case (Uncaught exn)
    with h ys show ?thesis by simp
  qed
qed

lemma seed_phase_logs_nonempty:
  assumes "seed_phase_logs io_count io_insert now s = Inr s0"
  shows "phase_logs s0 \<noteq> []"
    and "phase_logs s = [] \<Longrightarrow>
           \<exists>i. phase_logs s0 = [\<lparr>phase_id = i, phase = ''vegetative'', start_date = now\<rparr>]"
  using assms
  by (auto simp: seed_phase_logs_def insert_phase_def not_null_def
        split: option.splits sum.splits if_splits)

lemma current_phase_found:
  assumes "phase_logs s \<noteq> []"
  shows "\<exists>p d. get_current_phase None s = (ok (PhaseJson p d), s)"
    and "fst (get_current_phase io s) \<noteq> fail 404 b"
proof -
  from assms have "order_by_desc phase_id (phase_logs s) \<noteq> []"
    by (simp add: order_by_desc_Nil)
  then obtain r rs where "order_by_desc phase_id (phase_logs s) = r # rs"
    by (cases "order_by_desc phase_id (phase_logs s)") auto
  then show "\<exists>p d. get_current_phase None s = (ok (PhaseJson p d), s)"
    and "fst (get_current_phase io s) \<noteq> fail 404 b"
    by (auto simp: get_current_phase_def first_row_def ok_def fail_def split: option.splits)
qed

text \<open>
  Claim C7. When the seeding at start-up completes, \<open>phase_logs\<close> holds at least one
  row; when the table was empty (the first boot) it holds exactly the default row, phase
  \<open>vegetative\<close> with the boot time as its start date. No handler removes a row of
  \<open>phase_logs\<close>, so after any sequence of requests the table is still not empty, and
  \<open>/current-phase\<close> answers with a phase and never with status 404, whatever the storage
  layer does.
\<close>

theorem phase_timeline_never_empty:
  assumes "seed_phase_logs io_count io_insert now s = Inr s0"
  shows "phase_logs s0 \<noteq> [] \<and>
         (phase_logs s = [] \<longrightarrow>
            (\<exists>i. phase_logs s0 = [\<lparr>phase_id = i, phase = ''vegetative'', start_date = now\<rparr>])) \<and>
         phase_logs (run dp num rs s0) \<noteq> [] \<and>
         (\<exists>p d. get_current_phase None (run dp num rs s0) = (ok (PhaseJson p d), run dp num rs s0)) \<and>
         (\<forall>io b. fst (get_current_phase io (run dp num rs s0)) \<noteq> fail 404 b)"
proof -
  have seeded: "phase_logs s0 \<noteq> []"
    by (rule seed_phase_logs_nonempty(1) [OF assms])
  from run_phase_logs_append [of dp num rs s0] seeded have later: "phase_logs (run dp num rs s0) \<noteq> []"
    by auto
  show ?thesis
    using seeded later seed_phase_logs_nonempty(2) [OF assms]
      current_phase_found [OF later]
    by blast
qed

theorem phase_timeline_never_empty_witness:
  "seed_phase_logs None None ''2024-05-01T08:00:00.000Z'' first_boot =
     Inr (first_boot\<lparr>phase_logs :=
            [\<lparr>phase_id = 1, phase = ''vegetative'', start_date = ''2024-05-01T08:00:00.000Z''\<rparr>],
          phase_logs_seq := 1\<rparr>) \<and>
   (\<forall>io b. fst (get_current_phase io
       (run iso_dates few_numbers [GetCurrentPhase None, PutUpdateReport None None 7 Map.empty None, GetData]
          (first_boot\<lparr>phase_logs :=
            [\<lparr>phase_id = 1, phase = ''vegetative'', start_date = ''2024-05-01T08:00:00.000Z''\<rparr>],
          phase_logs_seq := 1\<rparr>))) \<noteq> fail 404 b)"
proof -
  have seed: "seed_phase_logs None None ''2024-05-01T08:00:00.000Z'' first_boot =
     Inr (first_boot\<lparr>phase_logs :=
            [\<lparr>phase_id = 1, phase = ''vegetative'', start_date = ''2024-05-01T08:00:00.000Z''\<rparr>],
          phase_logs_seq := 1\<rparr>)"
    by (simp add: seed_phase_logs_def insert_phase_def not_null_def next_rowid_def
          largest_rowid_def max_rowid_def first_boot_def)
  from phase_timeline_never_empty [OF seed] seed show ?thesis by blast
qed





subsection \<open>Report archive\<close>


lemma weekly_reports_remove_image: "weekly_reports (remove_image os row s) = weekly_reports s"
  by (simp add: remove_image_def unlink_def split: option.splits)






lemma select_report_deleted:
  "select_report i (s\<lparr>weekly_reports := delete_rows i (weekly_reports s)\<rparr>) = None"
proof -
  have "filter (\<lambda>r. report_id r = i) (filter (\<lambda>r. report_id r \<noteq> i) rows) = []"
    for rows :: "report_row list"
    by (induction rows) auto
  then show ?thesis by (simp add: select_report_def delete_rows_def first_row_def)
qed

lemma delete_rows_absent:
  "select_report i s = None \<Longrightarrow> delete_rows i (weekly_reports s) = weekly_reports s"
proof -
  assume "select_report i s = None"
  then have "filter (\<lambda>r. report_id r = i) (weekly_reports s) = []"
    by (simp add: select_report_def first_row_None)
  then show ?thesis
    by (simp add: delete_rows_def filter_empty_conv filter_id_conv)
qed

lemma one_report_created:
  "post_upload_report few_numbers None week1 (Some ''a.png'') first_boot =
     (ok (Message ''Report saved successfully''), one_report)"
  by (simp add: post_upload_report_def upload_single_def insert_report_def not_null_def
        next_rowid_def largest_rowid_def max_rowid_def first_boot_def week1_def one_report_def
        numeric_affinity_def few_numbers_def)

lemma one_report_selected:
  "select_report 1 one_report =
     Some \<lparr>report_id = 1, title = ''Week 1'', report_date = SqlText ''2024-06-01'',
           image_ref = Some ''a.png'', description = Some ''ok''\<rparr>"
  by (simp add: select_report_def first_row_def one_report_def)

lemma delete_delete_report_accepted:
  assumes "accepted (fst (delete_delete_report io_get os io_run i s))"
  shows "delete_delete_report io_get os' io_run i s =
           (ok (Message ''Report deleted successfully''),
            (remove_image os' (select_report i s) s)\<lparr>weekly_reports :=
               delete_rows i (weekly_reports s)\<rparr>)"
  using assms
  by (cases io_get; cases io_run)
     (simp_all add: delete_delete_report_def Let_def fail_def weekly_reports_remove_image)





text \<open>
  Claim C5. When a report with the identifier exists and its deletion is answered with
  success, reading the report afterwards is answered with status 404,
  \<open>Report not found.\<close> The outcome of removing the image file (\<open>os\<close>) changes neither
  the response nor the rows left in the table; when the removal fails (the operating
  system refuses, or the file is not there) one line is written to the console and the
  image directory stays as it was.
\<close>

theorem delete_report_then_not_found:
  assumes "select_report i s = Some r"
    and "accepted (fst (delete_delete_report io_get os io_run i s))"
  shows "fst (delete_delete_report io_get os io_run i s) =
           ok (Message ''Report deleted successfully'') \<and>
         get_report None i (snd (delete_delete_report io_get os io_run i s)) =
           (fail 404 (Error ''Report not found.''),
            snd (delete_delete_report io_get os io_run i s)) \<and>
         (\<forall>os'. fst (delete_delete_report io_get os' io_run i s) =
                  fst (delete_delete_report io_get os io_run i s) \<and>
                weekly_reports (snd (delete_delete_report io_get os' io_run i s)) =
                  delete_rows i (weekly_reports s)) \<and>
         (\<forall>f. image_ref r = Some f \<and> f \<noteq> [] \<and> (os \<noteq> None \<or> f \<notin> images s) \<longrightarrow>
               console_error (snd (delete_delete_report io_get os io_run i s)) =
                 console_error s @ [''Failed to delete image:''] \<and>
               images (snd (delete_delete_report io_get os io_run i s)) = images s)"
proof -
  note eq = delete_delete_report_accepted [OF assms(2)]
  have gone: "select_report i (snd (delete_delete_report io_get os io_run i s)) = None"
  proof -
    have "weekly_reports (snd (delete_delete_report io_get os io_run i s)) =
            delete_rows i (weekly_reports s)"
      by (simp add: eq)
    then have "filter (\<lambda>r. report_id r = i)
                 (weekly_reports (snd (delete_delete_report io_get os io_run i s))) = []"
      by (simp add: delete_rows_def filter_empty_conv)
    then show ?thesis by (simp add: select_report_def first_row_def)
  qed
  have logged: "console_error (snd (delete_delete_report io_get os io_run i s)) =
                 console_error s @ [''Failed to delete image:''] \<and>
               images (snd (delete_delete_report io_get os io_run i s)) = images s"
    if "image_ref r = Some f" "f \<noteq> []" "os \<noteq> None \<or> f \<notin> images s" for f
    using that assms(1) by (auto simp: eq remove_image_def unlink_def)
  from gone logged show ?thesis
    by (simp add: eq get_report_def)
qed

theorem delete_report_then_not_found_witness:
  "get_report None 1 (snd (delete_delete_report None (Some ''EPERM'') None 1 one_report)) =
     (fail 404 (Error ''Report not found.''),
      snd (delete_delete_report None (Some ''EPERM'') None 1 one_report)) \<and>
   console_error (snd (delete_delete_report None (Some ''EPERM'') None 1 one_report)) =
     [''Failed to delete image:''] \<and>
   fst (delete_delete_report None None None 1 one_report) =
     fst (delete_delete_report None (Some ''EPERM'') None 1 one_report)"
proof -
  have acc: "accepted (fst (delete_delete_report None (Some ''EPERM'') None 1 one_report))"
    by (simp add: delete_delete_report_def Let_def ok_def)
  note facts = delete_report_then_not_found [OF one_report_selected acc]
  from facts have found: "get_report None 1
      (snd (delete_delete_report None (Some ''EPERM'') None 1 one_report)) =
     (fail 404 (Error ''Report not found.''),
      snd (delete_delete_report None (Some ''EPERM'') None 1 one_report))"
    by blast
  from facts have same: "fst (delete_delete_report None None None 1 one_report) =
     fst (delete_delete_report None (Some ''EPERM'') None 1 one_report)"
    by blast
  from facts have "console_error (snd (delete_delete_report None (Some ''EPERM'') None 1 one_report)) =
     console_error one_report @ [''Failed to delete image:'']"
    by simp
  then have logged: "console_error (snd (delete_delete_report None (Some ''EPERM'') None 1 one_report)) =
     [''Failed to delete image:'']"
    by (simp add: one_report_def first_boot_def)
  from found same logged show ?thesis by simp
qed

text \<open>
  Claim C10. Deleting an identifier that no report has is answered with success, not
  with not-found: the read of the image reference finds no row, no file is removed, no
  row is deleted (the whole state is as before), and the response is the one a deletion
  of an existing report gets.
\<close>

theorem delete_missing_report_succeeds:
  assumes "select_report i s = None"
  shows "delete_delete_report None os None i s =
           (ok (Message ''Report deleted successfully''), s) \<and>
         remove_image os (select_report i s) s = s \<and>
         (\<forall>j t r os'. select_report j t = Some r \<longrightarrow>
            fst (delete_delete_report None os' None j t) =
            fst (delete_delete_report None os None i s))"
  using assms delete_rows_absent [OF assms]
  by (simp add: delete_delete_report_def Let_def remove_image_def)

theorem delete_missing_report_succeeds_witness:
  "select_report 2 one_report = None \<and>
   delete_delete_report None None None 2 one_report =
     (ok (Message ''Report deleted successfully''), one_report) \<and>
   fst (delete_delete_report None None None 1 one_report) =
     fst (delete_delete_report None None None 2 one_report)"
proof -
  have none: "select_report 2 one_report = None"
    by (simp add: select_report_def first_row_def one_report_def)
  from delete_missing_report_succeeds [OF none, of None] one_report_selected none
  show ?thesis by blast
qed

subsection \<open>Responses of the handlers\<close>

text \<open>
  Claim C3, at the input where it fails. An update with title, date and description but
  without an image, addressed to the identifier 2 when only report 1 exists: the read
  finds no row, the callback evaluates \<open>row.image\<close> on \<open>undefined\<close> and throws. No
  response is sent and the exception is uncaught.
\<close>

theorem update_missing_report_uncaught:
  "select_report 2 one_report = None \<and>
   put_update_report few_numbers None None 2 week1b None one_report =
     (Uncaught ''TypeError: Cannot read properties of undefined (reading image)'', one_report)"
  by (simp add: put_update_report_def Let_def upload_single_def truthy_def week1b_def
        image_or_row_def select_report_def first_row_def one_report_def)

theorem update_missing_report_uncaught_witness:
  "accepted (fst (put_update_report few_numbers None None 2 week1b None one_report)) = False \<and>
   (\<forall>res. fst (put_update_report few_numbers None None 2 week1b None one_report) \<noteq> Responded res) \<and>
   snd (put_update_report few_numbers None None 2 week1b None one_report) = one_report"
  using update_missing_report_uncaught by simp

text \<open>
  Claim C4, counterexample. Creating a report on a fresh database succeeds and gives the
  new row the identifier 1, but the response is the fixed object
  \<open>{ message: 'Report saved successfully' }\<close>: it carries no identifier and none of the
  accepted fields.
\<close>

theorem upload_response_without_identifier:
  "post_upload_report few_numbers None week1 (Some ''a.png'') first_boot =
     (ok (Message ''Report saved successfully''), one_report) \<and>
   map report_id (weekly_reports one_report) = [1] \<and>
   body_id (Message ''Report saved successfully'') = None"
  using one_report_created by (simp add: one_report_def)

text \<open>
  Claim C4, as amended. A successful \<open>/set-phase\<close> returns the identifier of the row it
  inserted together with the phase and the start date it accepted, as long as the
  identifiers of the table are below \<open>2 ^ 53\<close>, the integers a JavaScript number holds
  exactly (the counter of the table starts at 0 and only grows). The other write
  operations answer a success with a fixed confirmation only: \<open>Data received\<close> for a
  sensor update, \<open>Log received\<close> for a log entry, and the messages
  \<open>Report saved successfully\<close>, \<open>Report updated successfully\<close> and
  \<open>Report deleted successfully\<close> for the reports.
\<close>

theorem write_responses:
  "(accepted (fst (post_set_phase dp io b s)) \<and> 0 \<le> phase_logs_seq s \<and>
    phase_logs_seq s < 2 ^ 53 \<and> (\<forall>r \<in> set (phase_logs s). phase_id r < 2 ^ 53) \<longrightarrow>
      (\<exists>i p d. b ''phase'' = Some p \<and> b ''startDate'' = Some d \<and>
         fst (post_set_phase dp io b s) = ok (PhaseSetJson i (Some p) (Some d)) \<and>
         last (phase_logs (snd (post_set_phase dp io b s))) =
           \<lparr>phase_id = i, phase = p, start_date = d\<rparr>)) \<and>
   (accepted (fst (get_update q s)) \<longrightarrow> fst (get_update q s) = ok (Text ''Data received'')) \<and>
   fst (post_log now e s) = ok (Text ''Log received'') \<and>
   (accepted (fst (post_upload_report num io c upload s)) \<longrightarrow>
      fst (post_upload_report num io c upload s) = ok (Message ''Report saved successfully'')) \<and>
   (accepted (fst (put_update_report num io_get io_run j c upload s)) \<longrightarrow>
      fst (put_update_report num io_get io_run j c upload s) =
        ok (Message ''Report updated successfully'')) \<and>
   (accepted (fst (delete_delete_report io_get os io_run j s)) \<longrightarrow>
      fst (delete_delete_report io_get os io_run j s) =
        ok (Message ''Report deleted successfully''))"
proof -
  have phase: "\<exists>i p d. b ''phase'' = Some p \<and> b ''startDate'' = Some d \<and>
         fst (post_set_phase dp io b s) = ok (PhaseSetJson i (Some p) (Some d)) \<and>
         last (phase_logs (snd (post_set_phase dp io b s))) =
           \<lparr>phase_id = i, phase = p, start_date = d\<rparr>"
    if acc: "accepted (fst (post_set_phase dp io b s))" and lo: "0 \<le> phase_logs_seq s"
      and seq: "phase_logs_seq s < 2 ^ 53"
      and ids: "\<forall>r \<in> set (phase_logs s). phase_id r < 2 ^ 53"
  proof -
    from set_phase_accepted_key [OF acc] obtain i p d where
      b: "b ''phase'' = Some p" "b ''startDate'' = Some d" and
      key: "next_rowid (phase_logs_seq s) (map phase_id (phase_logs s)) = Inr i" and
      eq: "post_set_phase dp io b s =
             (ok (PhaseSetJson (js_number i) (Some p) (Some d)),
              s\<lparr>phase_logs := phase_logs s @ [\<lparr>phase_id = i, phase = p, start_date = d\<rparr>],
                phase_logs_seq := i\<rparr>)"
      by blast
    from next_rowid_exact [OF key lo seq] ids have "js_number i = i" by simp
    with b eq show ?thesis by simp
  qed
  have upd: "fst (get_update q s) = ok (Text ''Data received'')"
    if "accepted (fst (get_update q s))"
    using that by (simp add: get_update_def fail_def split: if_splits)
  have log: "fst (post_log now e s) = ok (Text ''Log received'')"
    by (simp add: post_log_def)
  have create: "fst (post_upload_report num io c upload s) = ok (Message ''Report saved successfully'')"
    if "accepted (fst (post_upload_report num io c upload s))"
    using that by (simp add: post_upload_report_def Let_def fail_def split: sum.splits)
  have change: "fst (put_update_report num io_get io_run j c upload s) =
        ok (Message ''Report updated successfully'')"
    if "accepted (fst (put_update_report num io_get io_run j c upload s))"
    using that
    by (simp add: put_update_report_def Let_def fail_def split: sum.splits option.splits if_splits)
  have del: "fst (delete_delete_report io_get os io_run j s) =
        ok (Message ''Report deleted successfully'')"
    if "accepted (fst (delete_delete_report io_get os io_run j s))"
    using delete_delete_report_accepted [OF that, of os] by simp
  from phase upd log create change del show ?thesis by blast
qed

theorem write_responses_witness:
  "fst (post_set_phase iso_dates None
          [''phase'' \<mapsto> ''flowering'', ''startDate'' \<mapsto> ''2024-06-01''] one_report) =
     ok (PhaseSetJson 1 (Some ''flowering'') (Some ''2024-06-01'')) \<and>
   fst (get_update [''moisture'' \<mapsto> ''41'', ''status'' \<mapsto> ''ON''] one_report) =
     ok (Text ''Data received'') \<and>
   fst (post_upload_report few_numbers None week1b None one_report) =
     ok (Message ''Report saved successfully'') \<and>
   fst (put_update_report few_numbers None None 1 week1b None one_report) =
     ok (Message ''Report updated successfully'') \<and>
   fst (delete_delete_report None None None 1 one_report) =
     ok (Message ''Report deleted successfully'')"
proof -
  let ?b = "[''phase'' \<mapsto> ''flowering'', ''startDate'' \<mapsto> ''2024-06-01'']"
  let ?q = "[''moisture'' \<mapsto> ''41'', ''status'' \<mapsto> ''ON'']"
  have a1: "fst (post_set_phase iso_dates None ?b one_report) =
               ok (PhaseSetJson 1 (Some ''flowering'') (Some ''2024-06-01''))"
    by (simp add: post_set_phase_def truthy_def iso_dates_def insert_phase_def not_null_def
          next_rowid_def largest_rowid_def max_rowid_def one_report_def first_boot_def
          js_number_def)
  then have acc1: "accepted (fst (post_set_phase iso_dates None ?b one_report))"
    by (simp add: ok_def)
  have small: "0 \<le> phase_logs_seq one_report \<and> phase_logs_seq one_report < 2 ^ 53 \<and>
               (\<forall>r \<in> set (phase_logs one_report). phase_id r < 2 ^ 53)"
    by (simp add: one_report_def first_boot_def)
  have acc2: "accepted (fst (get_update ?q one_report))"
    by (simp add: get_update_def ok_def)
  have acc3: "accepted (fst (post_upload_report few_numbers None week1b None one_report))"
    by (simp add: post_upload_report_def Let_def upload_single_def insert_report_def
          not_null_def next_rowid_def largest_rowid_def max_rowid_def week1b_def
          one_report_def first_boot_def ok_def)
  have acc4: "accepted (fst (put_update_report few_numbers None None 1 week1b None one_report))"
    by (simp add: put_update_report_def Let_def upload_single_def truthy_def week1b_def
          image_or_row_def select_report_def first_row_def update_report_stmt_def not_null_def
          one_report_def ok_def)
  have acc5: "accepted (fst (delete_delete_report None None None 1 one_report))"
    by (simp add: delete_delete_report_def Let_def ok_def)
  from write_responses [where dp = iso_dates and io = None and b = ?b and s = one_report
      and num = few_numbers and q = ?q and c = week1b and upload = None and io_get = None and io_run = None
      and j = 1 and os = None]
    a1 acc1 small acc2 acc3 acc4 acc5
  show ?thesis by blast
qed

end
